theory Spec2Isabelle
  imports Complex_Main "HOL-Library.AList"
begin

section \<open>Values shared by the two services\<close>

text \<open>
  The repository holds two variants of the VideoEditorPro backend: the job-table service
  (\<^verbatim>\<open>src/unnamed/part_000\<close>), which answers a composition request at once and tracks the
  composition in the in-memory \<^verbatim>\<open>jobs\<close> Map, and the synchronous service
  (\<^verbatim>\<open>src/server.js\<close>), which answers the request from the engine's terminal event and has no
  job table. JavaScript runs every handler to completion on one thread, so each handler is
  one atomic function on the state.

  Request fields are JSON strings or absent (\<open>None\<close> stands for \<^verbatim>\<open>undefined\<close> and \<^verbatim>\<open>null\<close>),
  as the request surface declares them. Timestamps are the integer milliseconds of
  \<^verbatim>\<open>Date.now()\<close>, passed in by the caller of each operation, as is the identifier that
  \<^verbatim>\<open>uuidv4()\<close> returns.
\<close>

datatype jval = JBool bool | JStr string | JInt int | JObj "(string \<times> jval) list"

text \<open>JavaScript's \<^verbatim>\<open>!x\<close> on a string-or-absent value: absent and the empty string are falsy.\<close>

fun falsy :: "string option \<Rightarrow> bool" where
  "falsy None = True"
| "falsy (Some v) = (v = [])"

text \<open>\<^verbatim>\<open>settings?.key || {}\<close> on a JSON value or an absent one.\<close>

fun truthy_jval :: "jval \<Rightarrow> bool" where
  "truthy_jval (JBool b) = b"
| "truthy_jval (JStr v) = (v \<noteq> [])"
| "truthy_jval (JInt n) = (n \<noteq> 0)"
| "truthy_jval (JObj kv) = True"

definition member_or_empty :: "jval option \<Rightarrow> string \<Rightarrow> jval" where
  "member_or_empty settings k =
     (case settings of
        Some (JObj kv) \<Rightarrow>
          (case map_of kv k of Some v \<Rightarrow> if truthy_jval v then v else JObj [] | None \<Rightarrow> JObj [])
      | _ \<Rightarrow> JObj [])"

text \<open>
  \<^verbatim>\<open>String.prototype.toLowerCase\<close> on ASCII text: a letter \<^verbatim>\<open>A\<close> to \<^verbatim>\<open>Z\<close> (codes 65 to 90, where
  bit 5 is clear) gets bit 5 set, which adds 32 to its code; every other character stays.
\<close>

fun toLowerCase_char :: "char \<Rightarrow> char" where
  "toLowerCase_char (Char b0 b1 b2 b3 b4 b5 b6 b7) =
     (let n = (of_char (Char b0 b1 b2 b3 b4 b5 b6 b7) :: nat) in
      if 65 \<le> n \<and> n \<le> 90 then Char b0 b1 b2 b3 b4 True b6 b7
      else Char b0 b1 b2 b3 b4 b5 b6 b7)"

definition toLowerCase :: "string \<Rightarrow> string" where
  "toLowerCase v = map toLowerCase_char v"

text \<open>
  \<^verbatim>\<open>Math.round(x || 0)\<close> on the engine's \<^verbatim>\<open>progress.percent\<close>: a finite number is
  taken as a real; \<open>None\<close> stands for \<^verbatim>\<open>undefined\<close> and \<^verbatim>\<open>NaN\<close>, which \<^verbatim>\<open>||\<close> replaces by 0 as
  it does 0 itself. \<^verbatim>\<open>Math.round\<close> rounds to the nearest integer, halves upwards.
\<close>

definition Math_round :: "real \<Rightarrow> int" where
  "Math_round x = \<lfloor>x + 1 / 2\<rfloor>"

fun or_zero :: "real option \<Rightarrow> real" where
  "or_zero None = 0"
| "or_zero (Some x) = x"

subsection \<open>The file system\<close>

text \<open>
  A path is a directory name and a file name; \<^verbatim>\<open>path.join('./output', f)\<close> and
  \<^verbatim>\<open>path.join('output', f)\<close> name the same file. A directory lists its entries in the order
  \<^verbatim>\<open>readdirSync\<close> returns them. Each entry carries its modification time and whether the
  operating system refuses \<^verbatim>\<open>stat\<close> or \<^verbatim>\<open>unlink\<close> on it (a permission, a busy file, a
  directory in place of a file): then \<^verbatim>\<open>statSync\<close> and \<^verbatim>\<open>unlinkSync\<close> throw.
\<close>

type_synonym path = "string \<times> string"

record fentry =
  mtimeMs :: int
  stat_raises :: bool
  unlink_raises :: bool

type_synonym filesystem = "(string \<times> (string \<times> fentry) list) list"

datatype exn = FsError string path

definition path_join :: "string \<Rightarrow> string \<Rightarrow> path" where
  "path_join d f = (if take 2 d = ''./'' then drop 2 d else d, f)"

definition lookup_entry :: "filesystem \<Rightarrow> path \<Rightarrow> fentry option" where
  "lookup_entry fs p = (case map_of fs (fst p) of None \<Rightarrow> None | Some es \<Rightarrow> map_of es (snd p))"

definition existsSync :: "filesystem \<Rightarrow> path \<Rightarrow> bool" where
  "existsSync fs p = (lookup_entry fs p \<noteq> None)"

definition existsSync_dir :: "filesystem \<Rightarrow> string \<Rightarrow> bool" where
  "existsSync_dir fs d = (map_of fs (fst (path_join d [])) \<noteq> None)"

definition mkdirSync :: "filesystem \<Rightarrow> string \<Rightarrow> filesystem" where
  "mkdirSync fs d = AList.update (fst (path_join d [])) [] fs"

definition readdirSync :: "filesystem \<Rightarrow> string \<Rightarrow> string list" where
  "readdirSync fs d = (case map_of fs d of None \<Rightarrow> [] | Some es \<Rightarrow> map fst es)"

definition statSync :: "filesystem \<Rightarrow> path \<Rightarrow> exn + int" where
  "statSync fs p =
     (case lookup_entry fs p of
        None \<Rightarrow> Inl (FsError ''ENOENT'' p)
      | Some e \<Rightarrow> if stat_raises e then Inl (FsError ''EACCES'' p) else Inr (mtimeMs e))"

definition unlinkSync :: "filesystem \<Rightarrow> path \<Rightarrow> exn + filesystem" where
  "unlinkSync fs p =
     (case lookup_entry fs p of
        None \<Rightarrow> Inl (FsError ''ENOENT'' p)
      | Some e \<Rightarrow>
          if unlink_raises e then Inl (FsError ''EPERM'' p)
          else Inr (AList.map_entry (fst p) (AList.delete (snd p)) fs))"

section \<open>The job-table service\<close>

subsection \<open>Job records and the state\<close>

text \<open>
  A job record is a JavaScript object; a field it does not have is \<open>None\<close>. The \<^verbatim>\<open>jobs\<close>
  Map keeps insertion order, and \<^verbatim>\<open>jobs.set\<close> on a key it holds replaces the value in place.
\<close>

record job =
  status :: string
  progress :: "int option"
  startTime :: "int option"
  outputUrl :: "string option"
  completedTime :: "int option"
  error :: "string option"
  failedTime :: "int option"

text \<open>
  A call of \<^verbatim>\<open>processVideos\<close> builds one engine command and one promise. A promise settles
  once: \<^verbatim>\<open>resolve\<close> and \<^verbatim>\<open>reject\<close> on a settled promise do nothing.
\<close>

datatype pstate = Pending | Fulfilled | Rejected

record composition =
  video1Path :: path
  video2Path :: path
  filterComplex :: string
  outputPath :: path
  promise :: pstate

record server =
  jobs :: "(string \<times> job) list"
  commands :: "(string \<times> composition) list"
  timers :: "(path \<times> path) list"
  files :: filesystem

datatype response =
    Json nat "(string \<times> jval) list"
  | JobJson job
  | Download path
  | Stream path

subsection \<open>processVideos: the filter graph and the engine command\<close>

definition nl :: string where
  "nl = CHR 0x0A # replicate 20 CHR '' ''"

definition side_by_side_filter :: string where
  "side_by_side_filter =
     ''[0:v]scale=960:1080,setsar=1[v1];'' @ nl @
     ''[1:v]scale=960:1080,setsar=1[v2];'' @ nl @
     ''[v1][v2]hstack=inputs=2[outv];'' @ nl @
     ''[0:a][1:a]amix=inputs=2:duration=longest[outa]''"

definition stacked_filter :: string where
  "stacked_filter =
     ''[0:v]scale=1920:540,setsar=1[v1];'' @ nl @
     ''[1:v]scale=1920:540,setsar=1[v2];'' @ nl @
     ''[v1][v2]vstack=inputs=2[outv];'' @ nl @
     ''[0:a][1:a]amix=inputs=2:duration=longest[outa]''"

definition sequential_filter :: string where
  "sequential_filter = ''[0:v][0:a][1:v][1:a]concat=n=2:v=1:a=1[outv][outa]''"

text \<open>
  The \<^verbatim>\<open>switch (layout?.toLowerCase())\<close> of \<^verbatim>\<open>processVideos\<close>, with the template literals
  trimmed as \<^verbatim>\<open>filterComplex.trim()\<close> leaves them. The \<^verbatim>\<open>settings\<close> argument is read into
  the two locals \<^verbatim>\<open>video1Settings\<close> and \<^verbatim>\<open>video2Settings\<close>, which nothing uses.
\<close>

definition buildFilterComplex :: "string option \<Rightarrow> jval option \<Rightarrow> string" where
  "buildFilterComplex layout settings =
     (let video1Settings = member_or_empty settings ''video1'';
          video2Settings = member_or_empty settings ''video2''
      in case map_option toLowerCase layout of
           None \<Rightarrow> sequential_filter
         | Some l \<Rightarrow>
             if l = ''side by side'' then side_by_side_filter
             else if l = ''stacked'' then stacked_filter
             else sequential_filter)"

definition processVideos ::
  "path \<Rightarrow> path \<Rightarrow> path \<Rightarrow> string option \<Rightarrow> jval option \<Rightarrow> string \<Rightarrow> server \<Rightarrow> server" where
  "processVideos v1 v2 out layout settings jobId s =
     s\<lparr>commands := AList.update jobId
          \<lparr>video1Path = v1, video2Path = v2,
           filterComplex = buildFilterComplex layout settings,
           outputPath = out, promise = Pending\<rparr> (commands s)\<rparr>"

subsection \<open>POST /api/process\<close>

definition processing_job :: "int \<Rightarrow> job" where
  "processing_job now =
     \<lparr>status = ''processing'', progress = Some 0, startTime = Some now, outputUrl = None,
      completedTime = None, error = None, failedTime = None\<rparr>"

definition completed_job :: "string \<Rightarrow> int \<Rightarrow> job" where
  "completed_job jobId now =
     \<lparr>status = ''completed'', progress = Some 100, startTime = None,
      outputUrl = Some (''/output/'' @ jobId @ ''.mp4''),
      completedTime = Some now, error = None, failedTime = None\<rparr>"

definition failed_job :: "string \<Rightarrow> int \<Rightarrow> job" where
  "failed_job message now =
     \<lparr>status = ''failed'', progress = None, startTime = None, outputUrl = None,
      completedTime = None, error = Some message, failedTime = Some now\<rparr>"

definition api_process ::
  "string option \<Rightarrow> string option \<Rightarrow> string option \<Rightarrow> jval option \<Rightarrow>
   string \<Rightarrow> int \<Rightarrow> server \<Rightarrow> response \<times> server" where
  "api_process video1Id video2Id layout settings jobId now s =
     (if falsy video1Id \<or> falsy video2Id then (Json 400 [(''error'', JStr ''Missing video IDs'')], s)
      else
        let v1 = path_join ''./uploads'' (case video1Id of Some v \<Rightarrow> v | None \<Rightarrow> []);
            v2 = path_join ''./uploads'' (case video2Id of Some v \<Rightarrow> v | None \<Rightarrow> []);
            outputDir = ''./output'';
            out = path_join outputDir (jobId @ ''.mp4'');
            s1 = (if \<not> existsSync_dir (files s) outputDir
                  then s\<lparr>files := mkdirSync (files s) outputDir\<rparr> else s);
            s2 = s1\<lparr>jobs := AList.update jobId (processing_job now) (jobs s1)\<rparr>;
            s3 = processVideos v1 v2 out layout settings jobId s2
        in (Json 200 [(''success'', JBool True), (''jobId'', JStr jobId),
                      (''message'', JStr ''Processing started'')], s3))"

subsection \<open>The engine's events\<close>

text \<open>
  The \<^verbatim>\<open>progress\<close> handler writes the rounded percent into the record the Map holds, whatever
  the record's status and whatever the value.
\<close>

definition on_progress :: "string \<Rightarrow> real option \<Rightarrow> server \<Rightarrow> server" where
  "on_progress jobId percent s =
     (let p = Math_round (or_zero percent) in
      case map_of (jobs s) jobId of
        None \<Rightarrow> s
      | Some j \<Rightarrow> s\<lparr>jobs := AList.update jobId (j\<lparr>progress := Some p\<rparr>) (jobs s)\<rparr>)"

text \<open>
  The \<^verbatim>\<open>end\<close> handler schedules the deletion of the two inputs and resolves the promise; the
  \<^verbatim>\<open>then\<close> callback of \<^verbatim>\<open>/api/process\<close> runs only if that settled it, and replaces the record.
  The \<^verbatim>\<open>error\<close> handler rejects it; the \<^verbatim>\<open>catch\<close> callback replaces the record likewise.
\<close>

definition on_end :: "string \<Rightarrow> int \<Rightarrow> composition \<Rightarrow> server \<Rightarrow> server" where
  "on_end jobId now c s =
     (let s1 = s\<lparr>timers := timers s @ [(video1Path c, video2Path c)]\<rparr> in
      if promise c = Pending
      then s1\<lparr>commands := AList.update jobId (c\<lparr>promise := Fulfilled\<rparr>) (commands s1),
              jobs := AList.update jobId (completed_job jobId now) (jobs s1)\<rparr>
      else s1)"

definition on_error :: "string \<Rightarrow> string \<Rightarrow> int \<Rightarrow> composition \<Rightarrow> server \<Rightarrow> server" where
  "on_error jobId message now c s =
     (if promise c = Pending
      then s\<lparr>commands := AList.update jobId (c\<lparr>promise := Rejected\<rparr>) (commands s),
             jobs := AList.update jobId (failed_job message now) (jobs s)\<rparr>
      else s)"

subsection \<open>GET /api/jobs/:jobId and GET /api/download/:jobId\<close>

definition api_jobs :: "string \<Rightarrow> server \<Rightarrow> response" where
  "api_jobs jobId s =
     (case map_of (jobs s) jobId of
        None \<Rightarrow> Json 404 [(''error'', JStr ''Job not found'')]
      | Some j \<Rightarrow> JobJson j)"


subsection \<open>Deferred deletion of the inputs\<close>

text \<open>
  The timer that the \<^verbatim>\<open>end\<close> handler sets deletes the two inputs inside \<^verbatim>\<open>try\<close>/\<^verbatim>\<open>catch\<close>: an
  error of \<^verbatim>\<open>unlinkSync\<close> is logged and the callback returns normally.
\<close>

definition cleanup_inputs :: "path \<times> path \<Rightarrow> server \<Rightarrow> server" where
  "cleanup_inputs t s =
     (case (if existsSync (files s) (fst t) then unlinkSync (files s) (fst t) else Inr (files s)) of
        Inl err \<Rightarrow> s
      | Inr f1 \<Rightarrow>
          (case (if existsSync f1 (snd t) then unlinkSync f1 (snd t) else Inr f1) of
             Inl err \<Rightarrow> s\<lparr>files := f1\<rparr>
           | Inr f2 \<Rightarrow> s\<lparr>files := f2\<rparr>))"

subsection \<open>The hourly sweep\<close>

text \<open>
  The \<^verbatim>\<open>setInterval\<close> callback has no \<^verbatim>\<open>try\<close>: an exception of \<^verbatim>\<open>statSync\<close> or \<^verbatim>\<open>unlinkSync\<close>
  leaves it at once. Each function returns the state as the mutations so far left it, and
  the exception if one was thrown. \<^verbatim>\<open>a || b\<close> on timestamps skips absent and zero values; a
  subtraction from an absent value is \<^verbatim>\<open>NaN\<close>, which is greater than nothing.
\<close>

definition maxAge :: int where
  "maxAge = 24 * 60 * 60 * 1000"

fun js_or :: "int option \<Rightarrow> int option \<Rightarrow> int option" where
  "js_or None b = b"
| "js_or (Some t) b = (if t = 0 then b else Some t)"

definition sweep_job :: "int \<Rightarrow> string \<times> job \<Rightarrow> server \<Rightarrow> server \<times> exn option" where
  "sweep_job now e s =
     (case js_or (js_or (completedTime (snd e)) (failedTime (snd e))) (startTime (snd e)) of
        None \<Rightarrow> (s, None)
      | Some t \<Rightarrow>
          if now - t > maxAge then
            let s1 = s\<lparr>jobs := AList.delete (fst e) (jobs s)\<rparr>;
                out = path_join ''./output'' (fst e @ ''.mp4'')
            in if existsSync (files s1) out
               then (case unlinkSync (files s1) out of
                       Inl err \<Rightarrow> (s1, Some err)
                     | Inr f \<Rightarrow> (s1\<lparr>files := f\<rparr>, None))
               else (s1, None)
          else (s, None))"

fun sweep_jobs :: "int \<Rightarrow> (string \<times> job) list \<Rightarrow> server \<Rightarrow> server \<times> exn option" where
  "sweep_jobs now [] s = (s, None)"
| "sweep_jobs now (e # es) s =
     (case sweep_job now e s of
        (s1, Some err) \<Rightarrow> (s1, Some err)
      | (s1, None) \<Rightarrow> sweep_jobs now es s1)"

definition sweep_file :: "int \<Rightarrow> string \<Rightarrow> string \<Rightarrow> server \<Rightarrow> server \<times> exn option" where
  "sweep_file now dir file s =
     (let filePath = path_join dir file in
      case statSync (files s) filePath of
        Inl err \<Rightarrow> (s, Some err)
      | Inr mtime \<Rightarrow>
          if now - mtime > maxAge then
            (case unlinkSync (files s) filePath of
               Inl err \<Rightarrow> (s, Some err)
             | Inr f \<Rightarrow> (s\<lparr>files := f\<rparr>, None))
          else (s, None))"

fun sweep_files :: "int \<Rightarrow> string \<Rightarrow> string list \<Rightarrow> server \<Rightarrow> server \<times> exn option" where
  "sweep_files now dir [] s = (s, None)"
| "sweep_files now dir (file # rest) s =
     (case sweep_file now dir file s of
        (s1, Some err) \<Rightarrow> (s1, Some err)
      | (s1, None) \<Rightarrow> sweep_files now dir rest s1)"

definition sweep_dir :: "int \<Rightarrow> string \<Rightarrow> server \<Rightarrow> server \<times> exn option" where
  "sweep_dir now dir s =
     (if existsSync_dir (files s) dir then sweep_files now dir (readdirSync (files s) dir) s
      else (s, None))"

definition sweep :: "int \<Rightarrow> server \<Rightarrow> server \<times> exn option" where
  "sweep now s =
     (case sweep_jobs now (jobs s) s of
        (s1, Some err) \<Rightarrow> (s1, Some err)
      | (s1, None) \<Rightarrow>
          (case sweep_dir now ''uploads'' s1 of
             (s2, Some err) \<Rightarrow> (s2, Some err)
           | (s2, None) \<Rightarrow> sweep_dir now ''output'' s2))"

subsection \<open>Runs of the service\<close>

text \<open>
  What changes the state: a request to \<^verbatim>\<open>/api/process\<close> (with the identifier \<^verbatim>\<open>uuidv4()\<close>
  returns and the time), an event of the engine command that a call of \<^verbatim>\<open>processVideos\<close>
  launched for a job (no command, no handler), the oldest input-deletion timer firing, and
  the sweep. The model puts no order on a command's events: whatever the engine delivers
  is handled as the handlers are written.
\<close>

datatype event =
    Process "string option" "string option" "string option" "jval option" string int
  | Progress string "real option"
  | End string int
  | Error string string int
  | TimerFired
  | Sweep int

fun step :: "event \<Rightarrow> server \<Rightarrow> server" where
  "step (Process video1Id video2Id layout settings jobId now) s =
     snd (api_process video1Id video2Id layout settings jobId now s)"
| "step (Progress jobId percent) s =
     (case map_of (commands s) jobId of None \<Rightarrow> s | Some c \<Rightarrow> on_progress jobId percent s)"
| "step (End jobId now) s =
     (case map_of (commands s) jobId of None \<Rightarrow> s | Some c \<Rightarrow> on_end jobId now c s)"
| "step (Error jobId message now) s =
     (case map_of (commands s) jobId of None \<Rightarrow> s | Some c \<Rightarrow> on_error jobId message now c s)"
| "step TimerFired s =
     (case timers s of [] \<Rightarrow> s | t # ts \<Rightarrow> cleanup_inputs t (s\<lparr>timers := ts\<rparr>))"
| "step (Sweep now) s = fst (sweep now s)"

fun run :: "event list \<Rightarrow> server \<Rightarrow> server" where
  "run [] s = s"
| "run (e # es) s = run es (step e s)"

text \<open>
  \<^verbatim>\<open>uuidv4()\<close> returns an identifier that no earlier call returned: along a run, every
  accepted request carries an identifier for which no command was launched before.
\<close>

fun fresh_step :: "event \<Rightarrow> server \<Rightarrow> bool" where
  "fresh_step (Process video1Id video2Id layout settings jobId now) s =
     (map_of (commands s) jobId = None)"
| "fresh_step e s = True"

fun fresh :: "event list \<Rightarrow> server \<Rightarrow> bool" where
  "fresh [] s = True"
| "fresh (e # es) s = (fresh_step e s \<and> fresh es (step e s))"

definition start :: "filesystem \<Rightarrow> server" where
  "start fs = \<lparr>jobs = [], commands = [], timers = [], files = fs\<rparr>"

section \<open>The synchronous service\<close>

text \<open>
  \<^verbatim>\<open>src/server.js\<close> keeps no job table. \<^verbatim>\<open>POST /process\<close> answers a bad request at once;
  for a good one it launches the engine command and answers from the command's \<^verbatim>\<open>end\<close> or
  \<^verbatim>\<open>error\<close> handler. \<^verbatim>\<open>GET /download/:fileId\<close> looks at the output directory only.
\<close>

record ffmpegCommand =
  input1 :: path
  input2 :: path
  complexFilter :: "string list"
  outputTo :: path

record sync_server =
  running :: "(string \<times> ffmpegCommand) list"
  deletions :: "path list list"
  disk :: filesystem

definition outputDir :: string where
  "outputDir = ''./output''"

text \<open>
  The filter graph of \<^verbatim>\<open>POST /process\<close>: an array of four chains for the two stacking layouts
  (compared with \<^verbatim>\<open>===\<close>, so case matters), one string otherwise. \<^verbatim>\<open>audioOption\<close>, which
  defaults to \<^verbatim>\<open>'mixed'\<close>, is written to the log and not used again.
\<close>

definition sync_complexFilter :: "string option \<Rightarrow> string option \<Rightarrow> string list" where
  "sync_complexFilter layout audioOption =
     (let audio = (case audioOption of None \<Rightarrow> ''mixed'' | Some a \<Rightarrow> a) in
      if layout = Some ''sidebyside'' then
        [''[0:v]scale=iw/2:ih[left]'',
         ''[1:v]scale=iw/2:ih[right]'',
         ''[left][right]hstack=inputs=2[v]'',
         ''[0:a][1:a]amix=inputs=2:duration=shortest[a]'']
      else if layout = Some ''stacked'' then
        [''[0:v]scale=iw:ih/2[top]'',
         ''[1:v]scale=iw:ih/2[bottom]'',
         ''[top][bottom]vstack=inputs=2[v]'',
         ''[0:a][1:a]amix=inputs=2:duration=shortest[a]'']
      else [''[0:v][0:a][1:v][1:a]concat=n=2:v=1:a=1[v][a]''])"

text \<open>
  The synchronous part of the handler: \<open>Some\<close> response when it answers itself, \<open>None\<close>
  when it has launched the command and left the answer to the command's handlers.
  \<open>running\<close> holds the commands launched and not yet ended; \<open>deletions\<close> the file
  deletions that the handlers schedule with \<^verbatim>\<open>setTimeout\<close> (the download handler when
  the stream it has started ends).
\<close>

definition post_process ::
  "string option \<Rightarrow> string option \<Rightarrow> string option \<Rightarrow> string option \<Rightarrow> string \<Rightarrow>
   sync_server \<Rightarrow> response option \<times> sync_server" where
  "post_process video1 video2 layout audioOption uuid s =
     (if falsy video1 \<or> falsy video2
      then (Some (Json 400 [(''error'', JStr ''Both video1 and video2 are required'')]), s)
      else
        let v1 = path_join ''./uploads'' (case video1 of Some v \<Rightarrow> v | None \<Rightarrow> []);
            v2 = path_join ''./uploads'' (case video2 of Some v \<Rightarrow> v | None \<Rightarrow> [])
        in if \<not> existsSync (disk s) v1 \<or> \<not> existsSync (disk s) v2
           then (Some (Json 404 [(''error'', JStr ''One or both videos not found'')]), s)
           else
             let outputId = uuid @ ''.mp4'';
                 cmd = \<lparr>input1 = v1, input2 = v2,
                        complexFilter = sync_complexFilter layout audioOption,
                        outputTo = path_join outputDir outputId\<rparr>
             in (None, s\<lparr>running := AList.update outputId cmd (running s)\<rparr>))"




section \<open>The filter graphs as the engine reads them\<close>

text \<open>
  A filter graph is a list of chains; a chain has input pads, filters (a name and its
  arguments) and output pads. The graphs below are the ones the two builders write; the
  lemmas \<open>render_*\<close> check each against the builder's text.
\<close>

type_synonym filter = "string \<times> string list"
type_synonym chain = "string list \<times> filter list \<times> string list"

fun join :: "string \<Rightarrow> string list \<Rightarrow> string" where
  "join sep [] = []"
| "join sep [x] = x"
| "join sep (x # y # ys) = x @ sep @ join sep (y # ys)"

definition pad :: "string \<Rightarrow> string" where
  "pad l = ''['' @ l @ '']''"

definition render_filter :: "filter \<Rightarrow> string" where
  "render_filter f = fst f @ ''='' @ join '':'' (snd f)"

definition render_chain :: "chain \<Rightarrow> string" where
  "render_chain c =
     concat (map pad (fst c)) @ join '','' (map render_filter (fst (snd c))) @
     concat (map pad (snd (snd c)))"

definition render_graph :: "chain list \<Rightarrow> string" where
  "render_graph g = join ('';'' @ nl) (map render_chain g)"

definition side_by_side_graph :: "chain list" where
  "side_by_side_graph =
     [([''0:v''], [(''scale'', [''960'', ''1080'']), (''setsar'', [''1''])], [''v1'']),
      ([''1:v''], [(''scale'', [''960'', ''1080'']), (''setsar'', [''1''])], [''v2'']),
      ([''v1'', ''v2''], [(''hstack'', [''inputs=2''])], [''outv'']),
      ([''0:a'', ''1:a''], [(''amix'', [''inputs=2'', ''duration=longest''])], [''outa''])]"



definition sync_side_by_side_graph :: "chain list" where
  "sync_side_by_side_graph =
     [([''0:v''], [(''scale'', [''iw/2'', ''ih''])], [''left'']),
      ([''1:v''], [(''scale'', [''iw/2'', ''ih''])], [''right'']),
      ([''left'', ''right''], [(''hstack'', [''inputs=2''])], [''v'']),
      ([''0:a'', ''1:a''], [(''amix'', [''inputs=2'', ''duration=shortest''])], [''a''])]"





subsection \<open>Frame sizes\<close>

text \<open>
  What the engine's video filters do to a frame size (width, height): an argument of
  \<^verbatim>\<open>scale\<close> is a number of pixels or an expression in the input's own width \<^verbatim>\<open>iw\<close> and
  height \<^verbatim>\<open>ih\<close>; \<^verbatim>\<open>setsar\<close> keeps the size; \<^verbatim>\<open>hstack\<close> puts two frames of one height
  side by side and \<^verbatim>\<open>vstack\<close> two frames of one width on top of each other, and both
  fail on frames that do not fit. \<open>video_frames\<close> gives the size on a pad of the graph
  for the sizes of the two input videos.
\<close>

definition dec_value :: "string \<Rightarrow> nat" where
  "dec_value v = foldl (\<lambda>a c. 10 * a + (of_char c - 48)) 0 v"

definition is_digit :: "char \<Rightarrow> bool" where
  "is_digit c = (48 \<le> (of_char c :: nat) \<and> (of_char c :: nat) \<le> 57)"

definition eval_dim :: "string \<Rightarrow> nat \<times> nat \<Rightarrow> nat option" where
  "eval_dim a d =
     (if a = ''iw'' then Some (fst d)
      else if a = ''ih'' then Some (snd d)
      else if a = ''iw/2'' then Some (fst d div 2)
      else if a = ''ih/2'' then Some (snd d div 2)
      else if a \<noteq> [] \<and> list_all is_digit a then Some (dec_value a)
      else None)"

definition apply_filter :: "filter \<Rightarrow> (nat \<times> nat) list \<Rightarrow> (nat \<times> nat) list option" where
  "apply_filter f ins =
     (if fst f = ''scale'' then
        (case (snd f, ins) of
           ([a, b], [d]) \<Rightarrow>
             (case (eval_dim a d, eval_dim b d) of
                (Some w, Some h) \<Rightarrow> Some [(w, h)]
              | _ \<Rightarrow> None)
         | _ \<Rightarrow> None)
      else if fst f = ''setsar'' then (case ins of [d] \<Rightarrow> Some [d] | _ \<Rightarrow> None)
      else if fst f = ''hstack'' then
        (case ins of
           [d1, d2] \<Rightarrow> if snd d1 = snd d2 then Some [(fst d1 + fst d2, snd d1)] else None
         | _ \<Rightarrow> None)
      else if fst f = ''vstack'' then
        (case ins of
           [d1, d2] \<Rightarrow> if fst d1 = fst d2 then Some [(fst d1, snd d1 + snd d2)] else None
         | _ \<Rightarrow> None)
      else None)"

fun apply_filters :: "filter list \<Rightarrow> (nat \<times> nat) list \<Rightarrow> (nat \<times> nat) list option" where
  "apply_filters [] ins = Some ins"
| "apply_filters (f # fs) ins =
     (case apply_filter f ins of None \<Rightarrow> None | Some outs \<Rightarrow> apply_filters fs outs)"

fun lookup_all :: "(string \<times> nat \<times> nat) list \<Rightarrow> string list \<Rightarrow> (nat \<times> nat) list option" where
  "lookup_all env [] = Some []"
| "lookup_all env (l # ls) =
     (case (map_of env l, lookup_all env ls) of
        (Some d, Some ds) \<Rightarrow> Some (d # ds)
      | _ \<Rightarrow> None)"

fun frames :: "(string \<times> nat \<times> nat) list \<Rightarrow> chain list \<Rightarrow> (string \<times> nat \<times> nat) list" where
  "frames env [] = env"
| "frames env (c # cs) =
     (case lookup_all env (fst c) of
        None \<Rightarrow> frames env cs
      | Some ins \<Rightarrow>
          (case (apply_filters (fst (snd c)) ins, snd (snd c)) of
             (Some [d], [l]) \<Rightarrow> frames (env @ [(l, d)]) cs
           | _ \<Rightarrow> frames env cs))"

definition video_frames :: "chain list \<Rightarrow> nat \<times> nat \<Rightarrow> nat \<times> nat \<Rightarrow> string \<Rightarrow> (nat \<times> nat) option" where
  "video_frames g in1 in2 l = map_of (frames [(''0:v'', in1), (''1:v'', in2)] g) l"

section \<open>State predicates\<close>

text \<open>
  The three shapes of a job record, and "exactly one of them". A job's promise is settled
  when its command's promise is no longer pending. \<open>table_ok\<close> is the invariant of the job
  table: every record has exactly one shape and every terminal record belongs to a settled
  promise. \<open>shrinks\<close> relates a state to one with the same commands and some records
  removed, which is all that the sweep and the timers do to the two tables.
\<close>

definition is_processing :: "job \<Rightarrow> bool" where
  "is_processing j = (status j = ''processing'' \<and> outputUrl j = None \<and> error j = None)"

definition is_completed :: "job \<Rightarrow> bool" where
  "is_completed j = (status j = ''completed'' \<and> outputUrl j \<noteq> None \<and> error j = None)"

definition is_failed :: "job \<Rightarrow> bool" where
  "is_failed j = (status j = ''failed'' \<and> error j \<noteq> None \<and> outputUrl j = None)"

definition one_state :: "job \<Rightarrow> bool" where
  "one_state j = (length (filter id [is_processing j, is_completed j, is_failed j]) = 1)"

definition settled :: "string \<Rightarrow> server \<Rightarrow> bool" where
  "settled jobId s = (case map_of (commands s) jobId of None \<Rightarrow> False | Some c \<Rightarrow> promise c \<noteq> Pending)"

definition table_ok :: "server \<Rightarrow> bool" where
  "table_ok s =
     (\<forall>jobId j. map_of (jobs s) jobId = Some j \<longrightarrow>
        one_state j \<and> (status j \<noteq> ''processing'' \<longrightarrow> settled jobId s))"

definition shrinks :: "server \<Rightarrow> server \<Rightarrow> bool" where
  "shrinks s s' =
     (commands s' = commands s \<and>
      (\<forall>jobId. map_of (jobs s') jobId = None \<or> map_of (jobs s') jobId = map_of (jobs s) jobId))"

definition status_of :: "string \<Rightarrow> server \<Rightarrow> string option" where
  "status_of jobId s = map_option status (map_of (jobs s) jobId)"


text \<open>
  What a status query shows of a job's progress while the job is processing, the states a
  run passes through, and the progress values a caller polling after every event sees.
  \<open>percents\<close> are the rounded percents that the engine delivers for a job, in order;
  \<open>percent_ok\<close> says that a delivered percent rounds into 0..100. \<open>progress_ok\<close>: a
  record's progress is within 0..100, and only a failed record has none. \<open>linked\<close>: every
  job in the table has a command. \<open>current\<close> is the progress shown now, 0 when none is.
\<close>

definition observed :: "string \<Rightarrow> server \<Rightarrow> int option" where
  "observed jobId s =
     (case api_jobs jobId s of
        JobJson j \<Rightarrow> if status j = ''processing'' then progress j else None
      | _ \<Rightarrow> None)"







definition processing_in :: "string \<Rightarrow> server \<Rightarrow> bool" where
  "processing_in jobId s = (status_of jobId s = Some ''processing'')"


section \<open>Example states\<close>

text \<open>
  A job-table service that has accepted one request and seen one progress event, the
  command launched for it, and a synchronous service with two uploads on disk.
\<close>

definition ex_job_server :: server where
  "ex_job_server =
     run [Process (Some ''a.mp4'') (Some ''b.mp4'') (Some ''Stacked'') None ''j1'' 1000,
          Progress ''j1'' (Some 40)] (start [])"

definition ex_command :: composition where
  "ex_command =
     \<lparr>video1Path = (''uploads'', ''a.mp4''), video2Path = (''uploads'', ''b.mp4''),
      filterComplex = stacked_filter, outputPath = (''output'', ''j1.mp4''), promise = Pending\<rparr>"

definition ex_file :: "int \<Rightarrow> fentry" where
  "ex_file t = \<lparr>mtimeMs = t, stat_raises = False, unlink_raises = False\<rparr>"

definition ex_sync_server :: sync_server where
  "ex_sync_server =
     \<lparr>running = [], deletions = [],
      disk = [(''uploads'', [(''a.mp4'', ex_file 10), (''b.mp4'', ex_file 20)]), (''output'', [])]\<rparr>"


text \<open>
  A job-table service with two terminal jobs older than a day, an output file that the
  operating system refuses to delete and an upload it refuses to inspect.
\<close>

definition ex_sweep_server :: server where
  "ex_sweep_server =
     \<lparr>jobs = [(''old1'', completed_job ''old1'' 1000),
              (''old2'', failed_job ''engine exit code 1'' 1000)],
      commands = [], timers = [],
      files = [(''uploads'',
                 [(''x.mp4'', \<lparr>mtimeMs = 0, stat_raises = True, unlink_raises = False\<rparr>),
                  (''y.mp4'', ex_file 0)]),
               (''output'',
                 [(''old1.mp4'', \<lparr>mtimeMs = 0, stat_raises = False, unlink_raises = True\<rparr>)])]\<rparr>"

text \<open>A run that completes job \<^verbatim>\<open>j1\<close>, and events that reach the service afterwards.\<close>

definition ex_finish :: "event list" where
  "ex_finish = [Process (Some ''a.mp4'') (Some ''b.mp4'') (Some ''Stacked'') None ''j1'' 1000,
                Progress ''j1'' (Some 40), End ''j1'' 5000]"

definition ex_after :: "event list" where
  "ex_after = [Progress ''j1'' (Some 70), Error ''j1'' ''late error'' 6000, Sweep 7000,
               Process (Some ''c.mp4'') (Some ''d.mp4'') None None ''j2'' 8000]"


section \<open>Properties\<close>

lemmas eval_defs =
  start_def api_process_def processVideos_def on_progress_def on_end_def on_error_def
  processing_job_def completed_job_def failed_job_def path_join_def existsSync_dir_def
  existsSync_def lookup_entry_def mkdirSync_def buildFilterComplex_def member_or_empty_def
  toLowerCase_def Math_round_def Let_def

lemma ex_job_server_command: "map_of (commands ex_job_server) ''j1'' = Some ex_command"
  by (simp add: ex_job_server_def ex_command_def eval_defs)

subsection \<open>The builders write the graphs\<close>

lemmas render_defs = render_graph_def render_chain_def render_filter_def pad_def

lemmas frame_defs = video_frames_def apply_filter_def eval_dim_def dec_value_def is_digit_def

lemma render_side_by_side: "render_graph side_by_side_graph = side_by_side_filter"
  by (simp add: side_by_side_graph_def side_by_side_filter_def render_defs)



lemma render_sync_side_by_side:
  "sync_complexFilter (Some ''sidebyside'') a = map render_chain sync_side_by_side_graph"
  by (simp add: sync_side_by_side_graph_def sync_complexFilter_def render_defs)




lemma build_side_by_side:
  "map_option toLowerCase layout = Some ''side by side'' \<Longrightarrow>
     buildFilterComplex layout settings = side_by_side_filter"
  by (auto simp: buildFilterComplex_def)





lemma frames_side_by_side:
  "video_frames side_by_side_graph in1 in2 ''v1'' = Some (960, 1080)"
  "video_frames side_by_side_graph in1 in2 ''v2'' = Some (960, 1080)"
  "video_frames side_by_side_graph in1 in2 ''outv'' = Some (1920, 1080)"
  by (simp_all add: side_by_side_graph_def frame_defs)

lemma frames_sync_side_by_side:
  "video_frames sync_side_by_side_graph (w1, h1) (w2, h2) ''left'' = Some (w1 div 2, h1)"
  "video_frames sync_side_by_side_graph (w1, h1) (w2, h2) ''right'' = Some (w2 div 2, h2)"
  "video_frames sync_side_by_side_graph (w1, h1) (w2, h2) ''v'' =
     (if h1 = h2 then Some (w1 div 2 + w2 div 2, h1) else None)"
  by (simp_all add: sync_side_by_side_graph_def frame_defs)

subsection \<open>C2: the answer to an accepted request\<close>




subsection \<open>C3: a request without an input identifier\<close>

text \<open>
  C3. When either input identifier is absent, both services answer at once with status 400
  and leave their whole state as it was: the job-table service inserts no job record and
  launches no command, the synchronous service launches no command.
\<close>

theorem missing_input_rejected:
  "video1Id = None \<or> video2Id = None \<Longrightarrow>
     api_process video1Id video2Id layout settings jobId now s =
       (Json 400 [(''error'', JStr ''Missing video IDs'')], s)
   \<and> post_process video1Id video2Id layout audioOption uuid t =
       (Some (Json 400 [(''error'', JStr ''Both video1 and video2 are required'')]), t)"
  by (auto simp: api_process_def post_process_def)

theorem missing_input_rejected_witness:
  "api_process (Some ''a.mp4'') None (Some ''stacked'') None ''j2'' 2000 ex_job_server =
       (Json 400 [(''error'', JStr ''Missing video IDs'')], ex_job_server)
   \<and> post_process (Some ''a.mp4'') None (Some ''stacked'') None ''u1'' ex_sync_server =
       (Some (Json 400 [(''error'', JStr ''Both video1 and video2 are required'')]), ex_sync_server)"
  using missing_input_rejected [of "Some ''a.mp4''" None "Some ''stacked''" None "''j2''" 2000
      ex_job_server None "''u1''" ex_sync_server]
  by simp

subsection \<open>C10: the record after a terminal transition\<close>

text \<open>
  C10. When the \<^verbatim>\<open>end\<close> or the \<^verbatim>\<open>error\<close> event settles a job's pending promise, the record in the
  job table is replaced as a whole, whatever it held: after completion it has exactly the
  status, progress 100, the output reference and the completion time, and no start time;
  after failure it has exactly the status, the error message and the failure time, and
  neither start time nor progress.
\<close>

theorem terminal_record_replaced:
  assumes "map_of (commands s) jobId = Some c" and "promise c = Pending"
  shows "map_of (jobs (step (End jobId now) s)) jobId =
           Some \<lparr>status = ''completed'', progress = Some 100, startTime = None,
                 outputUrl = Some (''/output/'' @ jobId @ ''.mp4''), completedTime = Some now,
                 error = None, failedTime = None\<rparr>
       \<and> map_of (jobs (step (Error jobId message now) s)) jobId =
           Some \<lparr>status = ''failed'', progress = None, startTime = None, outputUrl = None,
                 completedTime = None, error = Some message, failedTime = Some now\<rparr>"
  using assms by (simp add: on_end_def on_error_def completed_job_def failed_job_def update_conv')

theorem terminal_record_replaced_witness:
  "map_of (commands ex_job_server) ''j1'' = Some ex_command \<and> promise ex_command = Pending \<and>
   map_of (jobs (step (End ''j1'' 5000) ex_job_server)) ''j1'' =
     Some \<lparr>status = ''completed'', progress = Some 100, startTime = None,
           outputUrl = Some ''/output/j1.mp4'', completedTime = Some 5000,
           error = None, failedTime = None\<rparr> \<and>
   map_of (jobs (step (Error ''j1'' ''ffmpeg exited with code 1'' 5000) ex_job_server)) ''j1'' =
     Some \<lparr>status = ''failed'', progress = None, startTime = None, outputUrl = None,
           completedTime = None, error = Some ''ffmpeg exited with code 1'',
           failedTime = Some 5000\<rparr>"
proof -
  have h1: "map_of (commands ex_job_server) ''j1'' = Some ex_command"
    by (rule ex_job_server_command)
  have h2: "promise ex_command = Pending"
    by (simp add: ex_command_def)
  show ?thesis
    using h1 h2 terminal_record_replaced [OF h1 h2, of 5000 "''ffmpeg exited with code 1''"]
    by simp
qed

subsection \<open>C4: unrecognized layouts\<close>



subsection \<open>C5: the audio mix\<close>




subsection \<open>C6: the side-by-side frame\<close>

text \<open>
  C6 as stated fails on the synchronous service, which scales each input to half of its own
  width at its own height: inputs of 1280x720 and 640x720 give a frame of 960x720 in which
  the first input takes 640 and the second 320, and two inputs of 1920x1080 give another
  frame size, so there is no target size.
\<close>

theorem side_by_side_counterexample:
  "sync_complexFilter (Some ''sidebyside'') None = map render_chain sync_side_by_side_graph
   \<and> video_frames sync_side_by_side_graph (1280, 720) (640, 720) ''left'' = Some (640, 720)
   \<and> video_frames sync_side_by_side_graph (1280, 720) (640, 720) ''right'' = Some (320, 720)
   \<and> video_frames sync_side_by_side_graph (1280, 720) (640, 720) ''v'' = Some (960, 720)
   \<and> video_frames sync_side_by_side_graph (1920, 1080) (1920, 1080) ''v'' = Some (1920, 1080)"
  by (simp add: render_sync_side_by_side frames_sync_side_by_side)

text \<open>
  C6, amended. The job-table service scales each input to 960x1080, half of 1920 at the
  full 1080, and stacks the two horizontally into a frame of 1920x1080, whatever the sizes
  of the inputs. The synchronous service scales each input to half of its own width at its
  own height and stacks the two horizontally: the frame is as wide as the two halves
  together, and the engine refuses inputs of different heights.
\<close>

theorem side_by_side_frame:
  "(map_option toLowerCase layout = Some ''side by side'' \<longrightarrow>
      buildFilterComplex layout settings = render_graph side_by_side_graph)
 \<and> video_frames side_by_side_graph in1 in2 ''v1'' = Some (960, 1080)
 \<and> video_frames side_by_side_graph in1 in2 ''v2'' = Some (960, 1080)
 \<and> video_frames side_by_side_graph in1 in2 ''outv'' = Some (1920, 1080)
 \<and> sync_complexFilter (Some ''sidebyside'') audioOption = map render_chain sync_side_by_side_graph
 \<and> video_frames sync_side_by_side_graph (w1, h1) (w2, h2) ''left'' = Some (w1 div 2, h1)
 \<and> video_frames sync_side_by_side_graph (w1, h1) (w2, h2) ''right'' = Some (w2 div 2, h2)
 \<and> video_frames sync_side_by_side_graph (w1, h1) (w2, h2) ''v'' =
       (if h1 = h2 then Some (w1 div 2 + w2 div 2, h1) else None)"
  by (simp add: build_side_by_side render_side_by_side render_sync_side_by_side
        frames_side_by_side frames_sync_side_by_side)

theorem side_by_side_frame_witness:
  "buildFilterComplex (Some ''Side By Side'') None = render_graph side_by_side_graph
   \<and> video_frames side_by_side_graph (640, 480) (1280, 720) ''outv'' = Some (1920, 1080)
   \<and> video_frames sync_side_by_side_graph (640, 480) (1280, 480) ''v'' = Some (960, 480)"
proof -
  have h: "map_option toLowerCase (Some ''Side By Side'') = Some ''side by side''"
    by (simp add: toLowerCase_def)
  show ?thesis
    using h side_by_side_frame [of "Some ''Side By Side''" None "(640, 480)" "(1280, 720)"
        None 640 480 1280 480]
    by simp
qed

subsection \<open>C9: downloads\<close>




subsection \<open>C8: file errors during the sweep\<close>

text \<open>
  C8 does not hold of the sweep. With an old job whose output file cannot be deleted, the
  first \<^verbatim>\<open>unlinkSync\<close> throws out of the callback: the second old job stays in the table and
  the directories are not scanned. With no jobs, a \<^verbatim>\<open>statSync\<close> that throws on the first
  upload ends the scan before the second, old, upload is looked at. The input-deletion
  timer of the same file (\<open>cleanup_inputs\<close>) catches the same errors.
\<close>

lemmas sweep_defs =
  sweep_def sweep_job_def sweep_dir_def sweep_file_def statSync_def unlinkSync_def
  readdirSync_def maxAge_def

theorem sweep_aborts_on_file_error:
  "sweep 90000000 ex_sweep_server =
     (ex_sweep_server\<lparr>jobs := [(''old2'', failed_job ''engine exit code 1'' 1000)]\<rparr>,
      Some (FsError ''EPERM'' (''output'', ''old1.mp4'')))
   \<and> sweep 90000000 (ex_sweep_server\<lparr>jobs := []\<rparr>) =
     (ex_sweep_server\<lparr>jobs := []\<rparr>, Some (FsError ''EACCES'' (''uploads'', ''x.mp4'')))
   \<and> cleanup_inputs ((''output'', ''old1.mp4''), (''uploads'', ''y.mp4'')) ex_sweep_server =
     ex_sweep_server"
  by (simp add: ex_sweep_server_def sweep_defs cleanup_inputs_def completed_job_def
      failed_job_def ex_file_def path_join_def existsSync_def existsSync_dir_def
      lookup_entry_def Let_def)

subsection \<open>How each event changes the two tables\<close>

lemma shrinks_refl: "shrinks s s"
  by (simp add: shrinks_def)

lemma shrinks_trans: "shrinks a b \<Longrightarrow> shrinks b c \<Longrightarrow> shrinks a c"
  unfolding shrinks_def by metis

lemma shrinks_files: "shrinks s s' \<Longrightarrow> shrinks s (s'\<lparr>files := f\<rparr>)"
  by (simp add: shrinks_def)

lemma shrinks_sweep_job: "shrinks s (fst (sweep_job now e s))"
  by (auto simp: sweep_job_def shrinks_def Let_def delete_conv' split: option.splits sum.splits)

lemma shrinks_sweep_jobs: "shrinks s (fst (sweep_jobs now es s))"
proof (induction es arbitrary: s)
  case Nil
  show ?case by (simp add: shrinks_refl)
next
  case (Cons e es)
  obtain s1 r where sj: "sweep_job now e s = (s1, r)" by (cases "sweep_job now e s")
  have a: "shrinks s s1" using shrinks_sweep_job [of s now e] sj by simp
  show ?case
  proof (cases r)
    case None
    then show ?thesis using sj a Cons.IH [of s1] by (auto intro: shrinks_trans)
  next
    case (Some x)
    then show ?thesis using sj a by simp
  qed
qed

lemma shrinks_sweep_file: "shrinks s (fst (sweep_file now dir file s))"
  by (auto simp: sweep_file_def shrinks_def Let_def split: sum.splits)

lemma shrinks_sweep_files: "shrinks s (fst (sweep_files now dir fs s))"
proof (induction fs arbitrary: s)
  case Nil
  show ?case by (simp add: shrinks_refl)
next
  case (Cons f fs)
  obtain s1 r where sj: "sweep_file now dir f s = (s1, r)" by (cases "sweep_file now dir f s")
  have a: "shrinks s s1" using shrinks_sweep_file [of s now dir f] sj by simp
  show ?case
  proof (cases r)
    case None
    then show ?thesis using sj a Cons.IH [of s1] by (auto intro: shrinks_trans)
  next
    case (Some x)
    then show ?thesis using sj a by simp
  qed
qed

lemma shrinks_sweep_dir: "shrinks s (fst (sweep_dir now dir s))"
  by (simp add: sweep_dir_def shrinks_sweep_files shrinks_refl)

lemma shrinks_sweep: "shrinks s (fst (sweep now s))"
proof -
  obtain s1 r1 where a: "sweep_jobs now (jobs s) s = (s1, r1)" by (cases "sweep_jobs now (jobs s) s")
  obtain s2 r2 where b: "sweep_dir now ''uploads'' s1 = (s2, r2)" by (cases "sweep_dir now ''uploads'' s1")
  have 1: "shrinks s s1" using shrinks_sweep_jobs [of s now "jobs s"] a by simp
  have 2: "shrinks s1 s2" using shrinks_sweep_dir [of s1 now "''uploads''"] b by simp
  have 3: "shrinks s2 (fst (sweep_dir now ''output'' s2))" by (rule shrinks_sweep_dir)
  show ?thesis
    using a b 1 2 3 by (auto simp: sweep_def split: option.splits intro: shrinks_trans)
qed

lemma shrinks_cleanup: "shrinks s (cleanup_inputs t s)"
  by (auto simp: cleanup_inputs_def shrinks_def split: sum.splits)


lemma one_state_simps:
  "one_state (processing_job now)" "one_state (completed_job jobId now)" "one_state (failed_job m now)"
  "one_state (j\<lparr>progress := p\<rparr>) = one_state j"
  by (simp_all add: one_state_def is_processing_def is_completed_def is_failed_def
        processing_job_def completed_job_def failed_job_def)

lemma status_simps:
  "status (processing_job now) = ''processing''" "status (completed_job jobId now) = ''completed''"
  "status (failed_job m now) = ''failed''"
  by (simp_all add: processing_job_def completed_job_def failed_job_def)

lemma step_Process_reject:
  "falsy v1 \<or> falsy v2 \<Longrightarrow> step (Process v1 v2 l st jobId now) s = s"
  by (simp add: api_process_def)

lemma step_Process_accept:
  assumes "\<not> falsy v1" and "\<not> falsy v2"
  shows "map_of (jobs (step (Process v1 v2 l st jobId now) s)) =
           (map_of (jobs s))(jobId \<mapsto> processing_job now)
       \<and> map_option promise (map_of (commands (step (Process v1 v2 l st jobId now) s)) jobId) =
           Some Pending
       \<and> (\<forall>k. k \<noteq> jobId \<longrightarrow>
           map_of (commands (step (Process v1 v2 l st jobId now) s)) k = map_of (commands s) k)"
  using assms by (simp add: api_process_def processVideos_def update_conv' Let_def)

lemma step_Progress:
  "map_of (commands (step (Progress jobId p) s)) = map_of (commands s) \<and>
   (map_of (jobs (step (Progress jobId p) s)) = map_of (jobs s) \<or>
    (\<exists>j. map_of (jobs s) jobId = Some j \<and>
       map_of (jobs (step (Progress jobId p) s)) =
         (map_of (jobs s))(jobId \<mapsto> j\<lparr>progress := Some (Math_round (or_zero p))\<rparr>)))"
  by (auto simp: on_progress_def update_conv' Let_def split: option.splits)

lemma step_End:
  "(map_of (commands (step (End jobId now) s)) = map_of (commands s) \<and>
    map_of (jobs (step (End jobId now) s)) = map_of (jobs s) \<and>
    (case map_of (commands s) jobId of None \<Rightarrow> True | Some c \<Rightarrow> promise c \<noteq> Pending)) \<or>
   (\<exists>c. map_of (commands s) jobId = Some c \<and> promise c = Pending \<and>
     map_of (commands (step (End jobId now) s)) = (map_of (commands s))(jobId \<mapsto> c\<lparr>promise := Fulfilled\<rparr>) \<and>
     map_of (jobs (step (End jobId now) s)) = (map_of (jobs s))(jobId \<mapsto> completed_job jobId now))"
  by (auto simp: on_end_def update_conv' Let_def split: option.splits)

lemma step_Error:
  "(map_of (commands (step (Error jobId m now) s)) = map_of (commands s) \<and>
    map_of (jobs (step (Error jobId m now) s)) = map_of (jobs s) \<and>
    (case map_of (commands s) jobId of None \<Rightarrow> True | Some c \<Rightarrow> promise c \<noteq> Pending)) \<or>
   (\<exists>c. map_of (commands s) jobId = Some c \<and> promise c = Pending \<and>
     map_of (commands (step (Error jobId m now) s)) = (map_of (commands s))(jobId \<mapsto> c\<lparr>promise := Rejected\<rparr>) \<and>
     map_of (jobs (step (Error jobId m now) s)) = (map_of (jobs s))(jobId \<mapsto> failed_job m now))"
  by (auto simp: on_error_def update_conv' Let_def split: option.splits)

lemma step_TimerFired: "shrinks s (step TimerFired s)"
  using shrinks_cleanup [of "s\<lparr>timers := tl (timers s)\<rparr>" "hd (timers s)"]
  by (auto simp: shrinks_def split: list.splits)

lemma step_Sweep: "shrinks s (step (Sweep now) s)"
  by (simp add: shrinks_sweep)

lemma table_ok_shrinks: "table_ok s \<Longrightarrow> shrinks s s' \<Longrightarrow> table_ok s'"
  unfolding table_ok_def shrinks_def settled_def by (metis option.distinct(1))

lemma table_ok_step: "table_ok s \<Longrightarrow> table_ok (step e s)"
proof (cases e)
  case (Process v1 v2 l st jobId now)
  assume ok: "table_ok s"
  show ?thesis
  proof (cases "falsy v1 \<or> falsy v2")
    case True
    then show ?thesis using ok Process step_Process_reject by simp
  next
    case False
    then have f: "\<not> falsy v1" "\<not> falsy v2" by simp_all
    show ?thesis
      unfolding Process table_ok_def settled_def
      using step_Process_accept [OF f, where l = l and st = st and jobId = jobId and now = now
          and s = s] ok
      by (auto simp: table_ok_def settled_def one_state_simps status_simps split: if_splits)
  qed
next
  case (Progress jobId p)
  assume ok: "table_ok s"
  show ?thesis
    using step_Progress [of jobId p s] ok unfolding Progress
    by (auto simp: table_ok_def settled_def one_state_simps split: if_splits)
next
  case (End jobId now)
  assume ok: "table_ok s"
  show ?thesis
    using step_End [of jobId now s] ok unfolding End
    by (auto simp: table_ok_def settled_def one_state_simps status_simps split: if_splits)
next
  case (Error jobId m now)
  assume ok: "table_ok s"
  show ?thesis
    using step_Error [of jobId m now s] ok unfolding Error
    by (auto simp: table_ok_def settled_def one_state_simps status_simps split: if_splits)
next
  case TimerFired
  assume ok: "table_ok s"
  show ?thesis using table_ok_shrinks [OF ok step_TimerFired] TimerFired by simp
next
  case (Sweep now)
  assume ok: "table_ok s"
  show ?thesis using table_ok_shrinks [OF ok step_Sweep] Sweep by simp
qed


lemma settled_keeps_status:
  assumes "settled jobId s" and "fresh_step e s"
  shows "settled jobId (step e s) \<and>
         (status_of jobId (step e s) = None \<or> status_of jobId (step e s) = status_of jobId s)"
proof (cases e)
  case (Process v1 v2 l st k now)
  show ?thesis
  proof (cases "falsy v1 \<or> falsy v2")
    case True
    then show ?thesis using assms Process step_Process_reject by simp
  next
    case False
    then have f: "\<not> falsy v1" "\<not> falsy v2" by simp_all
    have ne: "k \<noteq> jobId" using assms Process by (auto simp: settled_def)
    show ?thesis
      unfolding Process
      using step_Process_accept [OF f, where l = l and st = st and jobId = k and now = now
          and s = s] assms(1) ne
      by (auto simp: settled_def status_of_def)
  qed
next
  case (Progress k p)
  show ?thesis
    using step_Progress [of k p s] assms(1) unfolding Progress
    by (auto simp: settled_def status_of_def)
next
  case (End k now)
  show ?thesis
    using step_End [of k now s] assms(1) unfolding End
    by (auto simp: settled_def status_of_def split: option.splits if_splits)
next
  case (Error k m now)
  show ?thesis
    using step_Error [of k m now s] assms(1) unfolding Error
    by (auto simp: settled_def status_of_def split: option.splits if_splits)
next
  case TimerFired
  show ?thesis
    using step_TimerFired [of s] assms(1) unfolding TimerFired
    by (auto simp: shrinks_def settled_def status_of_def)
next
  case (Sweep now)
  show ?thesis
    using step_Sweep [of s now] assms(1) unfolding Sweep
    by (auto simp: shrinks_def settled_def status_of_def)
qed

lemma run_append: "run (a @ b) s = run b (run a s)"
  by (induction a arbitrary: s) simp_all

lemma fresh_append: "fresh (a @ b) s = (fresh a s \<and> fresh b (run a s))"
  by (induction a arbitrary: s) auto

lemma table_ok_run: "table_ok s \<Longrightarrow> table_ok (run evs s)"
  by (induction evs arbitrary: s) (simp_all add: table_ok_step)

lemma table_ok_start: "table_ok (start fs)"
  by (simp add: table_ok_def start_def)

lemma settled_run:
  "settled jobId s \<Longrightarrow> fresh evs s \<Longrightarrow>
     status_of jobId (run evs s) = None \<or> status_of jobId (run evs s) = status_of jobId s"
proof (induction evs arbitrary: s)
  case Nil
  show ?case by simp
next
  case (Cons e es)
  have a: "settled jobId (step e s)"
    and b: "status_of jobId (step e s) = None \<or> status_of jobId (step e s) = status_of jobId s"
    using settled_keeps_status [of jobId s e] Cons.prems by simp_all
  have "status_of jobId (run es (step e s)) = None \<or>
        status_of jobId (run es (step e s)) = status_of jobId (step e s)"
    using Cons.IH [OF a] Cons.prems by simp
  then show ?case using b by auto
qed

subsection \<open>C1: one state per job, terminal states final\<close>

text \<open>
  C1. At every point of every run of the job-table service from its start, every record in
  the job table has exactly one of the three shapes: processing with neither output
  reference nor error, completed with the output reference and no error, failed with the
  error and no output reference. A job that is completed or failed at some point has, at
  every later point at which it is still in the table, the same status. (Identifiers are
  those of \<^verbatim>\<open>uuidv4()\<close>: a request never gets one that an earlier command had.)
\<close>

theorem job_state_exclusive_and_final:
  assumes "map_of (jobs (run evs1 (start fs))) jobId = Some j"
  shows "one_state j \<and>
         (fresh (evs1 @ evs2) (start fs) \<longrightarrow> status j \<noteq> ''processing'' \<longrightarrow>
            (\<forall>j'. map_of (jobs (run (evs1 @ evs2) (start fs))) jobId = Some j' \<longrightarrow>
                  status j' = status j))"
proof -
  have ok: "table_ok (run evs1 (start fs))"
    by (rule table_ok_run [OF table_ok_start])
  have one: "one_state j" using ok assms by (simp add: table_ok_def)
  have fin: "status j' = status j"
    if fr: "fresh (evs1 @ evs2) (start fs)" and final: "status j \<noteq> ''processing''"
      and later: "map_of (jobs (run (evs1 @ evs2) (start fs))) jobId = Some j'" for j'
  proof -
    have st: "settled jobId (run evs1 (start fs))" using ok assms final by (simp add: table_ok_def)
    have fr2: "fresh evs2 (run evs1 (start fs))" using fr by (simp add: fresh_append)
    show ?thesis
      using settled_run [OF st fr2] later assms by (simp add: status_of_def run_append)
  qed
  show ?thesis using one fin by blast
qed

lemma ex_finish_job:
  "map_of (jobs (run ex_finish (start []))) ''j1'' = Some (completed_job ''j1'' 5000)"
  by (simp add: ex_finish_def eval_defs)

lemma ex_fresh: "fresh (ex_finish @ ex_after) (start [])"
  by (simp add: ex_finish_def ex_after_def eval_defs sweep_defs)

lemma ex_final:
  "map_of (jobs (run (ex_finish @ ex_after) (start []))) ''j1'' =
     Some ((completed_job ''j1'' 5000)\<lparr>progress := Some 70\<rparr>)"
  by (simp add: ex_finish_def ex_after_def eval_defs sweep_defs)

theorem job_state_exclusive_and_final_witness:
  "map_of (jobs (run ex_finish (start []))) ''j1'' = Some (completed_job ''j1'' 5000)
   \<and> one_state (completed_job ''j1'' 5000)
   \<and> fresh (ex_finish @ ex_after) (start [])
   \<and> status (completed_job ''j1'' 5000) \<noteq> ''processing''
   \<and> map_option status (map_of (jobs (run (ex_finish @ ex_after) (start []))) ''j1'') =
       Some ''completed''"
  using job_state_exclusive_and_final [OF ex_finish_job, of ex_after] ex_finish_job ex_fresh
    ex_final
  by (simp add: status_simps)

subsection \<open>Progress along a run\<close>

lemma observed_alt:
  "observed jobId s =
     (case map_of (jobs s) jobId of
        None \<Rightarrow> None
      | Some j \<Rightarrow> if status j = ''processing'' then progress j else None)"
  by (simp add: observed_def api_jobs_def split: option.splits)










lemma observed_cong:
  "map_of (jobs s') jobId = map_of (jobs s) jobId \<Longrightarrow> observed jobId s' = observed jobId s"
  by (simp add: observed_alt)


lemma processing_in_cong:
  "map_of (jobs s') jobId = map_of (jobs s) jobId \<Longrightarrow> processing_in jobId s' = processing_in jobId s"
  by (simp add: processing_in_def status_of_def)





















subsection \<open>C7: the progress a caller sees\<close>





end
